theory Spec2Isabelle
  imports Main
begin

section \<open>The focus timer of the Pomodoro page\<close>

text \<open>
  A shallow embedding of \<^verbatim>\<open>web/src/pages/Pomodoro/index.tsx\<close>: the timer presets, the
  session state of the \<^verbatim>\<open>FocusMode\<close> component, its handlers, the messages exchanged
  with the picture-in-picture window and the preset editor of the settings section.

  JavaScript numbers are modelled as \<open>int\<close> (the durations, counters and seconds of the
  component are whole numbers); a value that JavaScript would make \<^verbatim>\<open>NaN\<close> is \<open>None\<close>.
\<close>

subsection \<open>Presets\<close>

datatype PresetType = Pomodoro | Stopwatch | Countdown | Custom

record TimerPreset =
  id' :: string
  name :: string
  description :: string
  type' :: PresetType
  focusDuration :: int
  shortBreakDuration :: int
  longBreakDuration :: int
  longBreakInterval :: int
  autoStartBreaks :: bool
  autoStartFocus :: bool
  isDefault :: bool

definition getDefaultPresets :: "TimerPreset list" where
  "getDefaultPresets =
    [ \<lparr> id' = ''pomodoro-classic'', name = ''Classic Pomodoro'',
        description = ''25 minutes focus, 5 minutes break, 15 minutes long break'',
        type' = Pomodoro, focusDuration = 25, shortBreakDuration = 5,
        longBreakDuration = 15, longBreakInterval = 4,
        autoStartBreaks = True, autoStartFocus = True, isDefault = True \<rparr>,
      \<lparr> id' = ''pomodoro-short'', name = ''Short Pomodoro'',
        description = ''15 minutes focus, 3 minutes break, 10 minutes long break'',
        type' = Pomodoro, focusDuration = 15, shortBreakDuration = 3,
        longBreakDuration = 10, longBreakInterval = 4,
        autoStartBreaks = True, autoStartFocus = True, isDefault = True \<rparr>,
      \<lparr> id' = ''52-17-rule'', name = ''52/17 Rule'',
        description = ''52 minutes focus, 17 minutes break'',
        type' = Pomodoro, focusDuration = 52, shortBreakDuration = 17,
        longBreakDuration = 17, longBreakInterval = 1,
        autoStartBreaks = True, autoStartFocus = True, isDefault = True \<rparr>,
      \<lparr> id' = ''animedoro'', name = ''Animedoro'',
        description = ''Perfect for anime watching: 90 minutes focus, 15 minutes break'',
        type' = Pomodoro, focusDuration = 90, shortBreakDuration = 15,
        longBreakDuration = 30, longBreakInterval = 2,
        autoStartBreaks = True, autoStartFocus = True, isDefault = True \<rparr>,
      \<lparr> id' = ''stopwatch'', name = ''Stopwatch'',
        description = ''Count up timer for flexible timing'',
        type' = Stopwatch, focusDuration = 0, shortBreakDuration = 5,
        longBreakDuration = 15, longBreakInterval = 4,
        autoStartBreaks = False, autoStartFocus = False, isDefault = True \<rparr>,
      \<lparr> id' = ''countdown-60'', name = ''Countdown 60'',
        description = ''60 minutes countdown timer'',
        type' = Countdown, focusDuration = 60, shortBreakDuration = 5,
        longBreakDuration = 15, longBreakInterval = 1,
        autoStartBreaks = False, autoStartFocus = False, isDefault = True \<rparr>,
      \<lparr> id' = ''countdown-30'', name = ''Countdown 30'',
        description = ''30 minutes countdown timer'',
        type' = Countdown, focusDuration = 30, shortBreakDuration = 5,
        longBreakDuration = 10, longBreakInterval = 1,
        autoStartBreaks = False, autoStartFocus = False, isDefault = True \<rparr> ]"

subsection \<open>The stored timer settings and the current preset\<close>

text \<open>
  \<^verbatim>\<open>getCurrentPreset\<close> reads the item \<^verbatim>\<open>pomodoro:timerSettings\<close> of the local storage
  inside a \<^verbatim>\<open>try\<close> block. The item is modelled by what the read can meet:
  \<^item> \<open>Missing\<close>: \<^verbatim>\<open>getItem\<close> returns \<^verbatim>\<open>null\<close> or the empty string (\<^verbatim>\<open>if (raw)\<close> fails);
  \<^item> \<open>Invalid\<close>: \<^verbatim>\<open>JSON.parse\<close> or a property access on its result throws, and the
    \<^verbatim>\<open>catch\<close> block swallows the exception;
  \<^item> \<open>Settings ps sel\<close>: an object whose \<^verbatim>\<open>presets\<close> field is \<open>ps\<close> (\<open>None\<close> when the
    field is absent, the case of \<^verbatim>\<open>presets?.find\<close>) and whose \<^verbatim>\<open>selectedPreset\<close> field is
    \<open>sel\<close> (\<open>None\<close> when it is not a string).
\<close>

datatype StorageItem =
    Missing
  | Invalid
  | Settings "TimerPreset list option" "string option"

fun getCurrentPreset :: "StorageItem \<Rightarrow> TimerPreset option" where
  "getCurrentPreset Missing = None"
| "getCurrentPreset Invalid = None"
| "getCurrentPreset (Settings None sel) = None"
| "getCurrentPreset (Settings (Some ps) sel) = find (\<lambda>p. Some (id' p) = sel) ps"

datatype TimerMode = Focus | ShortBreak | LongBreak

fun getTimerDuration :: "StorageItem \<Rightarrow> TimerMode \<Rightarrow> int" where
  "getTimerDuration item mode =
    (case getCurrentPreset item of
       None \<Rightarrow>
         (case mode of
            Focus \<Rightarrow> 25 * 60
          | ShortBreak \<Rightarrow> 5 * 60
          | LongBreak \<Rightarrow> 15 * 60)
     | Some preset \<Rightarrow>
         (case mode of
            Focus \<Rightarrow> focusDuration preset * 60
          | ShortBreak \<Rightarrow> shortBreakDuration preset * 60
          | LongBreak \<Rightarrow> longBreakDuration preset * 60))"

subsection \<open>Session state and state updates\<close>

text \<open>
  The component keeps four state variables. A handler reads them from the render it
  belongs to and calls their setters; React queues the calls and applies them in the
  order in which they were issued. A handler is therefore modelled as a function from
  the state it reads to the list of setter calls it issues, and \<open>applyUpdates\<close> plays
  the queue. Every handler is applied to the latest state: the model does not follow
  which render a long-lived callback (an interval, a message listener) was created in.
\<close>

record FocusModeState =
  timerMode :: TimerMode
  running :: bool
  completedSessions :: int
  secondsLeft :: int

datatype StateUpdate =
    SetTimerMode TimerMode
  | SetRunning bool
  | SetCompletedSessions int
  | SetSecondsLeft int

fun applyUpdate :: "FocusModeState \<Rightarrow> StateUpdate \<Rightarrow> FocusModeState" where
  "applyUpdate s (SetTimerMode m) = s\<lparr>timerMode := m\<rparr>"
| "applyUpdate s (SetRunning b) = s\<lparr>running := b\<rparr>"
| "applyUpdate s (SetCompletedSessions n) = s\<lparr>completedSessions := n\<rparr>"
| "applyUpdate s (SetSecondsLeft n) = s\<lparr>secondsLeft := n\<rparr>"

definition applyUpdates :: "StateUpdate list \<Rightarrow> FocusModeState \<Rightarrow> FocusModeState" where
  "applyUpdates us s = foldl applyUpdate s us"

text \<open>The state on mount: \<^verbatim>\<open>useState\<close> initial values.\<close>

definition initialState :: "StorageItem \<Rightarrow> FocusModeState" where
  "initialState item =
    \<lparr> timerMode = Focus, running = False, completedSessions = 0,
      secondsLeft = getTimerDuration item Focus \<rparr>"

text \<open>
  The remainder operator \<^verbatim>\<open>%\<close> of JavaScript truncates towards zero (the result has the
  sign of the dividend) and yields \<^verbatim>\<open>NaN\<close> for a zero divisor.
\<close>

definition jsRem :: "int \<Rightarrow> int \<Rightarrow> int option" where
  "jsRem a b = (if b = 0 then None else Some (sgn a * (\<bar>a\<bar> mod \<bar>b\<bar>)))"

subsection \<open>The handlers of the timer\<close>

definition handleTimerComplete :: "StorageItem \<Rightarrow> FocusModeState \<Rightarrow> StateUpdate list" where
  "handleTimerComplete item s =
    (case getCurrentPreset item of
       None \<Rightarrow> []
     | Some preset \<Rightarrow>
         if timerMode s = Focus then
           (let newCompletedSessions = completedSessions s + 1;
                isLongBreak = (jsRem newCompletedSessions (longBreakInterval preset) = Some 0);
                breakMode = (if isLongBreak then LongBreak else ShortBreak)
            in [ SetCompletedSessions newCompletedSessions,
                 SetTimerMode breakMode,
                 SetSecondsLeft (getTimerDuration item breakMode),
                 (if autoStartBreaks preset then SetRunning True else SetRunning False) ])
         else
           [ SetTimerMode Focus,
             SetSecondsLeft (getTimerDuration item Focus),
             (if autoStartFocus preset then SetRunning True else SetRunning False) ])"


text \<open>
  The callback of the one-second interval that exists while \<^verbatim>\<open>running\<close> holds. The call
  \<^verbatim>\<open>setSecondsLeft(s => ...)\<close> is issued by the callback before the body of the updater
  runs, so the value the updater returns comes first in the queue and the setter calls
  made inside the updater follow it.
\<close>

definition tick :: "StorageItem \<Rightarrow> FocusModeState \<Rightarrow> StateUpdate list" where
  "tick item s =
    (if secondsLeft s \<le> 1 then
       SetSecondsLeft 0 # SetRunning False # handleTimerComplete item s
     else [SetSecondsLeft (secondsLeft s - 1)])"



definition reset :: "StorageItem \<Rightarrow> FocusModeState \<Rightarrow> StateUpdate list" where
  "reset item s = [SetRunning False, SetSecondsLeft (getTimerDuration item (timerMode s))]"


definition switchMode :: "StorageItem \<Rightarrow> TimerMode \<Rightarrow> StateUpdate list" where
  "switchMode item newMode =
    [SetRunning False, SetTimerMode newMode, SetSecondsLeft (getTimerDuration item newMode)]
    @ (if newMode = Focus then [SetCompletedSessions 0] else [])"

text \<open>
  The clock left to itself: the interval callback fires once a second until the branch
  \<^verbatim>\<open>s <= 1\<close> is taken, which ends the session and runs \<^verbatim>\<open>handleTimerComplete\<close>.
  The interval exists while \<^verbatim>\<open>running\<close> holds (\<^verbatim>\<open>start()\<close> or an auto-start sets it); the
  callback itself does not read the flag, and neither does \<open>countdown\<close>.
\<close>

function countdown :: "StorageItem \<Rightarrow> FocusModeState \<Rightarrow> FocusModeState" where
  "countdown item s =
    (if secondsLeft s \<le> 1 then applyUpdates (tick item s) s
     else countdown item (applyUpdates (tick item s) s))"
  by pat_completeness auto
termination
  by (relation "measure (\<lambda>(item, s). nat (secondsLeft s))")
     (auto simp: tick_def applyUpdates_def)

declare countdown.simps [simp del]

subsection \<open>Control messages from the picture-in-picture window\<close>




subsection \<open>The picture-in-picture window seen from the primary\<close>

text \<open>
  \<^verbatim>\<open>pipWindowRef\<close> holds the window handle or \<^verbatim>\<open>null\<close>; the handle has the flag
  \<^verbatim>\<open>closed\<close>, which the browser sets. \<^verbatim>\<open>isPipActive\<close> is the flag of the page.
\<close>

record PipWindow =
  closed :: bool

record PipState =
  isPipActive :: bool
  pipWindowRef :: "PipWindow option"

datatype PipMessage = PipUpdate int bool TimerMode

text \<open>
  The effect that runs when the seconds, the running flag, the mode or \<^verbatim>\<open>isPipActive\<close>
  change. \<open>postThrows\<close> tells whether \<^verbatim>\<open>postMessage\<close> throws, which the \<^verbatim>\<open>catch\<close> block
  turns into the clean-up. The result is the list of messages posted and the new state.
\<close>

definition updatePipEffect :: "bool \<Rightarrow> FocusModeState \<Rightarrow> PipState \<Rightarrow> PipMessage list \<times> PipState" where
  "updatePipEffect postThrows s p =
    (case pipWindowRef p of
       None \<Rightarrow> ([], p)
     | Some w \<Rightarrow>
         if \<not> closed w then
           (if postThrows then ([], p\<lparr>isPipActive := False, pipWindowRef := None\<rparr>)
            else ([PipUpdate (secondsLeft s) (running s) (timerMode s)], p))
         else if isPipActive p then ([], p\<lparr>isPipActive := False, pipWindowRef := None\<rparr>)
         else ([], p))"

text \<open>
  One firing of the interval of 1000 ms that the second effect installs; the effect
  returns at once, without an interval, when \<^verbatim>\<open>isPipActive\<close> is false.
\<close>

definition periodicCheck :: "PipState \<Rightarrow> PipState" where
  "periodicCheck p =
    (if \<not> isPipActive p then p
     else (case pipWindowRef p of
             None \<Rightarrow> p
           | Some w \<Rightarrow>
               if closed w then p\<lparr>isPipActive := False, pipWindowRef := None\<rparr> else p))"

text \<open>The listeners for \<^verbatim>\<open>pagehide\<close> and \<^verbatim>\<open>unload\<close> that \<^verbatim>\<open>togglePip\<close> registers.\<close>

definition closeNotified :: "PipState \<Rightarrow> PipState" where
  "closeNotified p = p\<lparr>isPipActive := False, pipWindowRef := None\<rparr>"

text \<open>
  What can happen in the primary while it holds a handle: the timer state changes and
  the first effect runs, the liveness poll fires, or a close notification arrives. Time
  is counted in firings of the poll.
\<close>

datatype PrimaryEvent =
    TimerStateChanged bool FocusModeState
  | PollFired
  | CloseNotified

fun primaryStep :: "PrimaryEvent \<Rightarrow> PipState \<Rightarrow> PipMessage list \<times> PipState" where
  "primaryStep (TimerStateChanged postThrows s) p = updatePipEffect postThrows s p"
| "primaryStep PollFired p = ([], periodicCheck p)"
| "primaryStep CloseNotified p = ([], closeNotified p)"

fun primaryRun :: "PrimaryEvent list \<Rightarrow> PipState \<Rightarrow> PipMessage list \<times> PipState" where
  "primaryRun [] p = ([], p)"
| "primaryRun (e # es) p =
    (let (ms, p') = primaryStep e p;
         (ms', p'') = primaryRun es p'
     in (ms @ ms', p''))"

subsection \<open>The preset editor\<close>

text \<open>
  \<^verbatim>\<open>parseInt\<close> without a radix, on the decimal strings that an input of type
  \<^verbatim>\<open>number\<close> delivers: leading white space is skipped, a sign is read, then the longest
  run of decimal digits; the result is \<^verbatim>\<open>NaN\<close> (\<open>None\<close>) when there is no digit. The
  hexadecimal prefix is not modelled.
\<close>

definition isWhiteSpace :: "char \<Rightarrow> bool" where
  "isWhiteSpace c = (c \<in> set [CHR '' '', CHR 0x09, CHR 0x0A, CHR 0x0B, CHR 0x0C, CHR 0x0D])"

definition isDigit :: "char \<Rightarrow> bool" where
  "isDigit c = (c \<in> set ''0123456789'')"

definition digitValue :: "char \<Rightarrow> int" where
  "digitValue c = int (of_char c) - 48"

definition parseInt :: "string \<Rightarrow> int option" where
  "parseInt str =
    (let s = dropWhile isWhiteSpace str;
         (sign, rest) =
           (case s of
              [] \<Rightarrow> (1, s)
            | c # cs \<Rightarrow>
                if c = CHR ''-'' then (- 1, cs)
                else if c = CHR ''+'' then (1, cs)
                else (1, s));
         digits = takeWhile isDigit rest
     in if digits = [] then None
        else Some (sign * foldl (\<lambda>n c. n * 10 + digitValue c) 0 digits))"

text \<open>\<^verbatim>\<open>x || d\<close> on a number \<open>x\<close>: \<open>d\<close> when \<open>x\<close> is \<^verbatim>\<open>NaN\<close> or zero, else \<open>x\<close>.\<close>

definition orDefault :: "int option \<Rightarrow> int \<Rightarrow> int" where
  "orDefault x d = (case x of None \<Rightarrow> d | Some n \<Rightarrow> if n = 0 then d else n)"

text \<open>The \<^verbatim>\<open>onChange\<close> handler of the field "Long Break After (sessions)".\<close>

definition longBreakIntervalOnChange :: "TimerPreset \<Rightarrow> string \<Rightarrow> TimerPreset" where
  "longBreakIntervalOnChange editingPreset v =
    editingPreset\<lparr>longBreakInterval := orDefault (parseInt v) 4\<rparr>"

text \<open>The \<^verbatim>\<open>onClick\<close> handler of "Save": the list of presets sent to the store.\<close>

definition savePreset :: "TimerPreset list \<Rightarrow> TimerPreset \<Rightarrow> TimerPreset list" where
  "savePreset presets editingPreset =
    map (\<lambda>p. if id' p = id' editingPreset then editingPreset else p) presets"

text \<open>The preset that "+ New Preset" creates; its id is \<^verbatim>\<open>custom-\<close> and a time stamp.\<close>

definition newPreset :: "string \<Rightarrow> TimerPreset" where
  "newPreset stamp =
    \<lparr> id' = ''custom-'' @ stamp, name = ''Custom Preset'',
      description = ''A custom timer preset'',
      type' = Custom, focusDuration = 25, shortBreakDuration = 5,
      longBreakDuration = 15, longBreakInterval = 4,
      autoStartBreaks = True, autoStartFocus = True, isDefault = False \<rparr>"

subsection \<open>Stored settings used as concrete inputs\<close>

text \<open>
  The settings that the settings section falls back to when nothing is stored
  (\<^verbatim>\<open>selectedPreset: 'pomodoro-classic', presets: getDefaultPresets()\<close>), and the same
  presets with the Stopwatch preset selected.
\<close>

definition defaultTimerSettings :: StorageItem where
  "defaultTimerSettings = Settings (Some getDefaultPresets) (Some ''pomodoro-classic'')"


text \<open>
  The invariant of the primary once its handle reports closed: the handle is closed, or
  it has been dropped and the flag cleared with it.
\<close>

definition handleClosed :: "PipState \<Rightarrow> bool" where
  "handleClosed p = (case pipWindowRef p of None \<Rightarrow> \<not> isPipActive p | Some w \<Rightarrow> closed w)"

section \<open>Properties\<close>

subsection \<open>Playing the update queue\<close>





subsection \<open>What \<open>handleTimerComplete\<close> writes\<close>







subsection \<open>The cycle of focus sessions and breaks\<close>



subsection \<open>The Stopwatch preset\<close>


subsection \<open>Resolving the current preset\<close>




subsection \<open>Skip\<close>




subsection \<open>The end of a break\<close>



subsection \<open>Reset and manual mode switch\<close>

text \<open>
  C6. \<^verbatim>\<open>reset()\<close> stops the clock and restores the seconds to the full duration of the
  current mode under the current preset; the mode and the count of completed focus
  sessions stay as they were.
\<close>

theorem reset_restores_duration:
  "running (applyUpdates (reset item s) s) = False \<and>
   secondsLeft (applyUpdates (reset item s) s) = getTimerDuration item (timerMode s) \<and>
   timerMode (applyUpdates (reset item s) s) = timerMode s \<and>
   completedSessions (applyUpdates (reset item s) s) = completedSessions s"
  by (simp add: reset_def applyUpdates_def)

text \<open>
  C7. \<^verbatim>\<open>switchMode(newMode)\<close> stops the clock, sets the mode to \<open>newMode\<close> and the seconds
  to the duration of \<open>newMode\<close>; the count of completed focus sessions becomes zero when
  \<open>newMode\<close> is focus, whatever it was, and stays as it was otherwise.
\<close>

theorem switchMode_sets_mode:
  "running (applyUpdates (switchMode item newMode) s) = False \<and>
   timerMode (applyUpdates (switchMode item newMode) s) = newMode \<and>
   secondsLeft (applyUpdates (switchMode item newMode) s) = getTimerDuration item newMode \<and>
   completedSessions (applyUpdates (switchMode item newMode) s) =
     (if newMode = Focus then 0 else completedSessions s)"
  by (simp add: switchMode_def applyUpdates_def)

subsection \<open>The long-break interval at the edit boundary\<close>

text \<open>The fallback of the field repairs a value of zero and an input without digits.\<close>

lemma longBreakIntervalOnChange_nonzero:
  "longBreakInterval (longBreakIntervalOnChange editingPreset v) \<noteq> 0"
  by (simp add: longBreakIntervalOnChange_def orDefault_def split: option.split)

text \<open>
  C8. The claim is that no preset with a long-break interval below one passes the edit
  boundary. The input \<^verbatim>\<open>-3\<close> parses to \<open>- 3\<close>, which \<^verbatim>\<open>|| 4\<close> keeps; "Save" stores the
  edited preset as it is, and the expiry transition then takes the remainder by \<open>- 3\<close>
  (the third focus completion gives a long break).
\<close>

theorem negative_longBreakInterval_is_saved:
  "parseInt ''-3'' = Some (- 3) \<and>
   longBreakInterval (longBreakIntervalOnChange (newPreset ''1'') ''-3'') = - 3 \<and>
   savePreset (getDefaultPresets @ [newPreset ''1''])
       (longBreakIntervalOnChange (newPreset ''1'') ''-3'') =
     getDefaultPresets @ [(newPreset ''1'')\<lparr>longBreakInterval := - 3\<rparr>] \<and>
   handleTimerComplete
       (Settings (Some (savePreset (getDefaultPresets @ [newPreset ''1''])
                          (longBreakIntervalOnChange (newPreset ''1'') ''-3'')))
                 (Some ''custom-1''))
       \<lparr>timerMode = Focus, running = True, completedSessions = 2, secondsLeft = 1\<rparr> =
     [SetCompletedSessions 3, SetTimerMode LongBreak, SetSecondsLeft 900, SetRunning True]"
  by (simp add: parseInt_def isWhiteSpace_def isDigit_def digitValue_def orDefault_def
      longBreakIntervalOnChange_def savePreset_def newPreset_def getDefaultPresets_def
      handleTimerComplete_def jsRem_def)

subsection \<open>Control messages\<close>



subsection \<open>A closed picture-in-picture window\<close>

lemma primaryStep_closed:
  assumes "handleClosed p"
  shows "fst (primaryStep e p) = [] \<and> handleClosed (snd (primaryStep e p)) \<and>
         (\<not> isPipActive p \<longrightarrow> \<not> isPipActive (snd (primaryStep e p)))"
  using assms
  by (cases e)
     (auto simp: handleClosed_def updatePipEffect_def periodicCheck_def closeNotified_def
           split: option.splits)

lemma primaryRun_closed:
  assumes "handleClosed p"
  shows "fst (primaryRun es p) = [] \<and> handleClosed (snd (primaryRun es p)) \<and>
         (\<not> isPipActive p \<longrightarrow> \<not> isPipActive (snd (primaryRun es p)))"
  using assms
proof (induction es arbitrary: p)
  case Nil
  then show ?case by simp
next
  case (Cons e es)
  obtain ms p' where step: "primaryStep e p = (ms, p')" by (cases "primaryStep e p")
  with primaryStep_closed [OF Cons.prems, of e]
  have s: "ms = []" "handleClosed p'" "\<not> isPipActive p \<longrightarrow> \<not> isPipActive p'" by auto
  obtain ms' p'' where rest: "primaryRun es p' = (ms', p'')" by (cases "primaryRun es p'")
  with Cons.IH [OF s(2)]
  have r: "ms' = []" "handleClosed p''" "\<not> isPipActive p' \<longrightarrow> \<not> isPipActive p''" by auto
  show ?case using step rest s r by simp
qed

lemma primaryRun_append:
  "primaryRun (es @ fs) p =
    (fst (primaryRun es p) @ fst (primaryRun fs (snd (primaryRun es p))),
     snd (primaryRun fs (snd (primaryRun es p))))"
  by (induction es arbitrary: p) (auto split: prod.splits)

lemma periodicCheck_clears:
  assumes "handleClosed p"
  shows "\<not> isPipActive (periodicCheck p)"
  using assms by (auto simp: handleClosed_def periodicCheck_def split: option.splits)

text \<open>
  C10. Let the primary hold a handle that reports closed. Whatever happens next in the
  primary (timer state changes, firings of the poll, close notifications, in any order
  and number), it posts no message to the window. The flag \<open>isPipActive\<close> is false after
  the next firing of the liveness poll, which the code schedules every 1000 ms, also
  when no close notification arrives before it, and it stays false from then on.
\<close>

theorem closed_mirror_gets_nothing:
  assumes "pipWindowRef p = Some w" and "closed w"
  shows "fst (primaryRun es p) = [] \<and>
         \<not> isPipActive (periodicCheck p) \<and>
         \<not> isPipActive (snd (primaryRun (es @ [PollFired]) p)) \<and>
         \<not> isPipActive (snd (primaryRun (es @ PollFired # es') p))"
proof -
  have c: "handleClosed p" using assms by (simp add: handleClosed_def)
  let ?q = "snd (primaryRun es p)"
  have q: "handleClosed ?q" using primaryRun_closed [OF c, of es] by simp
  have poll: "\<not> isPipActive (periodicCheck ?q)" "handleClosed (periodicCheck ?q)"
    using periodicCheck_clears [OF q] primaryStep_closed [OF q, of PollFired] by simp_all
  have "snd (primaryRun (es @ PollFired # es') p) = snd (primaryRun es' (periodicCheck ?q))"
    by (simp add: primaryRun_append split: prod.splits)
  moreover have "\<not> isPipActive (snd (primaryRun es' (periodicCheck ?q)))"
    using primaryRun_closed [OF poll(2), of es'] poll(1) by simp
  moreover have "snd (primaryRun (es @ [PollFired]) p) = periodicCheck ?q"
    by (simp add: primaryRun_append split: prod.splits)
  ultimately show ?thesis
    using primaryRun_closed [OF c, of es] poll(1) periodicCheck_clears [OF c] by simp
qed

theorem closed_mirror_gets_nothing_witness:
  "pipWindowRef \<lparr>isPipActive = True, pipWindowRef = Some \<lparr>closed = True\<rparr>\<rparr> = Some \<lparr>closed = True\<rparr> \<and>
   closed \<lparr>closed = True\<rparr> \<and>
   fst (primaryRun [PollFired, TimerStateChanged False (initialState defaultTimerSettings)]
         \<lparr>isPipActive = True, pipWindowRef = Some \<lparr>closed = True\<rparr>\<rparr>) = [] \<and>
   \<not> isPipActive (periodicCheck \<lparr>isPipActive = True, pipWindowRef = Some \<lparr>closed = True\<rparr>\<rparr>)"
proof -
  have h: "pipWindowRef \<lparr>isPipActive = True, pipWindowRef = Some \<lparr>closed = True\<rparr>\<rparr> =
      Some \<lparr>closed = True\<rparr>" "closed \<lparr>closed = True\<rparr>"
    by simp_all
  from closed_mirror_gets_nothing [OF h, of
      "[PollFired, TimerStateChanged False (initialState defaultTimerSettings)]" "[]"] h
  show ?thesis by simp
qed

end
